theory Spec2Isabelle
  imports Complex_Main "HOL-Library.Sublist"
begin

section \<open>Background music selection (NLP.py, part 2)\<close>

text \<open>
  A Python \<open>str\<close> is the list of its Unicode code points. \<open>theme.lower()\<close> is
  Python's built-in lower-casing of such a string; it comes with the language, not
  with the repository, and is the parameter \<open>str_lower\<close> of
  \<open>pick_background_music\<close>. The keywords of the table are ASCII literals.
\<close>

type_synonym str = "nat list"

definition ascii :: "string \<Rightarrow> str" where
  "ascii s = map of_char s"

text \<open>The test \<open>key in theme_lower\<close>: the key occurs as a contiguous substring.\<close>

fun str_contains :: "str \<Rightarrow> str \<Rightarrow> bool" where
  "str_contains key [] = (key = [])"
| "str_contains key (c # cs) = (prefix key (c # cs) \<or> str_contains key cs)"

text \<open>The dictionary, as the list of its items in insertion order.\<close>

definition THEME_MUSIC_MAP :: "(str \<times> string) list" where
  "THEME_MUSIC_MAP =
     [(ascii ''space'', ''background_sound/space.wav''),
      (ascii ''fantastic'', ''background_sound/fantasy.wav''),
      (ascii ''medieval'', ''background_sound/medieval.wav''),
      (ascii ''horror'', ''background_sound/horror.wav''),
      (ascii ''sea'', ''background_sound/sea.wav''),
      (ascii ''sci-fi'', ''background_sound/sci-fi.wav''),
      (ascii ''forest'', ''background_sound/day_forest.wav'')]"

definition DEFAULT_BG_MUSIC :: string where
  "DEFAULT_BG_MUSIC = ''background_sound/fairy_tail_slow.wav''"

text \<open>The \<open>for key, music_file in THEME_MUSIC_MAP.items()\<close> loop.\<close>

fun scan_items :: "(str \<times> string) list \<Rightarrow> str \<Rightarrow> string" where
  "scan_items [] theme_lower = DEFAULT_BG_MUSIC"
| "scan_items ((key, music_file) # rest) theme_lower =
     (if str_contains key theme_lower then music_file
      else scan_items rest theme_lower)"

definition pick_background_music :: "(str \<Rightarrow> str) \<Rightarrow> str \<Rightarrow> string" where
  "pick_background_music str_lower theme = scan_items THEME_MUSIC_MAP (str_lower theme)"

text \<open>
  Some values of \<open>str.lower\<close>, to run the selection on: the letters \<open>A\<close> to
  \<open>Z\<close> go to \<open>a\<close> to \<open>z\<close>, the capital I with a dot above (U+0130) goes to
  \<open>i\<close> followed by the combining dot above (U+0307), and the other code points
  below 128 stay as they are. Python's function agrees with \<open>lower_basic\<close> on
  strings made of these code points; nothing is said here about the others.
\<close>

definition lower_basic_cp :: "nat \<Rightarrow> str" where
  "lower_basic_cp c =
     (if 65 \<le> c \<and> c \<le> 90 then [c + 32]
      else if c = 304 then [105, 775]
      else [c])"

definition lower_basic :: "str \<Rightarrow> str" where
  "lower_basic s = concat (map lower_basic_cp s)"


section \<open>The application state and the external libraries\<close>

type_synonym bytes = "nat list"

text \<open>
  Exceptions that reach the application. \<open>CouldntDecodeError\<close> and
  \<open>FileNotFoundError\<close> are what \<open>AudioSegment.from_file\<close> raises on a malformed
  container and on a missing path; \<open>InvalidDuration\<close> and
  \<open>TooManyMissingFrames\<close> are pydub's; \<open>ZeroDivisionError\<close> and
  \<open>TypeError\<close> are Python's own.
\<close>

datatype exn =
    CouldntDecodeError | FileNotFoundError | ZeroDivisionError | OtherError string
  | TypeError | InvalidDuration | TooManyMissingFrames

text \<open>The three \<open>st.error\<close> messages of the program, each with the exception it formats.\<close>

datatype ui_error = GenerationFailed exn | WavReadFailed exn | TTSFailed exn

text \<open>
  What the functions read and write besides their arguments:
  \<open>st.session_state["feedback"]\<close> (\<open>None\<close>, \<open>"like"\<close> or \<open>"dislike"\<close>), the
  progress bar, the messages shown by \<open>st.error\<close>, and the files on disk.
\<close>

record world =
  feedback :: "string option"
  progress :: nat
  errors :: "ui_error list"
  disk :: "string \<rightharpoonup> bytes"

text \<open>
  \<open>pydub.AudioSegment\<close> is not part of the repository. The program uses a
  segment only through the library: the two ways of \<open>from_file\<close>, \<open>len(seg)\<close>,
  \<open>seg * n\<close>, \<open>seg[:d]\<close>, \<open>seg.fade_out(ms)\<close>, \<open>seg + dB\<close>,
  \<open>seg.overlay(other, position=0)\<close> and \<open>seg.export(buffer, format="wav")\<close>.
  These are the fields of the record below, over any type \<open>'a\<close> of segments; an
  operation that can raise returns a sum.
\<close>

record 'a pydub =
  decode_wav :: "bytes \<Rightarrow> exn + 'a"
  decode_any :: "bytes \<Rightarrow> exn + 'a"
  seg_len :: "'a \<Rightarrow> nat"
  repeat :: "'a \<Rightarrow> nat \<Rightarrow> 'a"
  slice_to :: "'a \<Rightarrow> nat \<Rightarrow> exn + 'a"
  fade_out :: "'a \<Rightarrow> int \<Rightarrow> exn + 'a"
  apply_gain :: "'a \<Rightarrow> real \<Rightarrow> 'a"
  overlay :: "'a \<Rightarrow> 'a \<Rightarrow> exn + 'a"
  export_wav :: "'a \<Rightarrow> bytes"

text \<open>\<open>AudioSegment.from_file(path)\<close>: open the file, then decode its contents.\<close>

definition from_file :: "'a pydub \<Rightarrow> (string \<rightharpoonup> bytes) \<Rightarrow> string \<Rightarrow> exn + 'a" where
  "from_file lib fs path =
     (case fs path of
        None \<Rightarrow> Inl FileNotFoundError
      | Some contents \<Rightarrow> decode_any lib contents)"

text \<open>
  The speech model and the temporary-file name chosen by
  \<open>tempfile.NamedTemporaryFile\<close> are parameters too. \<open>TTS_init\<close> is the
  constructor \<open>TTS(model_name=...)\<close> (\<open>Some e\<close> when it raises);
  \<open>tts_to_file\<close> takes the text, the speaker file and the language and gives
  the bytes written to the buffer.
\<close>

record coqui =
  TTS_init :: "string \<Rightarrow> exn option"
  tts_to_file :: "string \<Rightarrow> string option \<Rightarrow> string \<Rightarrow> exn + bytes"
  temp_name :: "(string \<rightharpoonup> bytes) \<Rightarrow> string"


section \<open>Fairy tale generation (NLP.py, part 3)\<close>

definition feedback_note :: "string option \<Rightarrow> string" where
  "feedback_note fb =
     (if fb = Some ''like'' then
        ''The user liked your previous story. Maintain or enhance that appealing style/tone.\<newline>''
      else if fb = Some ''dislike'' then
        ''The user disliked your previous story. Try a different approach or style.\<newline>''
      else [])"

definition system_message :: "string \<Rightarrow> string option \<Rightarrow> string" where
  "system_message language_code fb =
     ''You are a creative AI specialized in crafting original fairy tales. ''
     @ ''Write a complete story with a clear beginning, middle, and end. ''
     @ ''It should be relatively small, around 1000 words. ''
     @ ''Use rich detail, do not end abruptly, and conclude with a final resolution. ''
     @ ''Write the story in '' @ language_code @ '' language.\<newline>''
     @ feedback_note fb"

definition user_message :: "string \<Rightarrow> string \<Rightarrow> string \<Rightarrow> string" where
  "user_message scenario main_character themes =
     ''Initial Scenario: '' @ scenario @ ''\<newline>''
     @ ''Main Character: '' @ main_character @ ''\<newline>''
     @ ''Themes: '' @ themes @ ''\<newline>\<newline>''
     @ ''Please write the fairy tale using these elements, up to around 1000 words, ending conclusively.''"

text \<open>
  The arguments of \<open>openai.chat.completions.create\<close>. The sampling parameters
  (temperature 0.7, top_p 1.0, both penalties 0.5) are constants of the call.
\<close>

record chat_request =
  model :: string
  messages :: "(string \<times> string) list"
  max_tokens :: nat

definition chat_request_of :: "world \<Rightarrow> string \<Rightarrow> string \<Rightarrow> string \<Rightarrow> string \<Rightarrow> chat_request" where
  "chat_request_of st scenario main_character themes language_code =
     \<lparr>model = ''gpt-4'',
      messages = [(''system'', system_message language_code (feedback st)),
                  (''user'', user_message scenario main_character themes)],
      max_tokens = 2000\<rparr>"

definition generate_fairy_tale ::
  "(chat_request \<Rightarrow> exn + string) \<Rightarrow> world \<Rightarrow> string \<Rightarrow> string \<Rightarrow> string \<Rightarrow> string
     \<Rightarrow> string option \<times> world" where
  "generate_fairy_tale create st scenario main_character themes language_code =
     (let st1 = st\<lparr>progress := 33\<rparr>
      in case create (chat_request_of st scenario main_character themes language_code) of
           Inl e \<Rightarrow> (None, st1\<lparr>errors := errors st1 @ [GenerationFailed e]\<rparr>)
         | Inr content \<Rightarrow> (Some content, st1\<lparr>progress := 66\<rparr>))"


section \<open>Speech synthesis (NLP.py, part 4)\<close>

text \<open>
  \<open>voice_sample_path\<close> is a \<open>BytesIO\<close> (an uploaded file), or anything else:
  a path, or \<open>None\<close>.
\<close>

datatype voice_sample = BytesIO bytes | Other "string option"

text \<open>The \<open>with BytesIO() as audio_buffer\<close> block.\<close>

definition run_tts ::
  "coqui \<Rightarrow> world \<Rightarrow> string \<Rightarrow> string option \<Rightarrow> string \<Rightarrow> bytes option \<times> world" where
  "run_tts env st story_text speaker_wav_path language_code =
     (case tts_to_file env story_text speaker_wav_path language_code of
        Inl e \<Rightarrow> (None, st\<lparr>errors := errors st @ [TTSFailed e]\<rparr>)
      | Inr audio \<Rightarrow> (Some audio, st\<lparr>progress := 90\<rparr>))"

text \<open>
  \<open>NamedTemporaryFile(suffix=".wav", delete=False)\<close> creates a file that closing
  does not remove; the function has no call that removes a file.
\<close>

definition text_to_speech_coqui ::
  "'a pydub \<Rightarrow> coqui \<Rightarrow> world \<Rightarrow> string \<Rightarrow> string \<Rightarrow> voice_sample \<Rightarrow> bytes option \<times> world" where
  "text_to_speech_coqui lib env st story_text language_code voice_sample_path =
     (case TTS_init env ''tts_models/multilingual/multi-dataset/xtts_v2'' of
        Some e \<Rightarrow> (None, st\<lparr>errors := errors st @ [TTSFailed e]\<rparr>)
      | None \<Rightarrow>
          (let st1 = st\<lparr>progress := 75\<rparr>
           in case voice_sample_path of
                BytesIO data \<Rightarrow>
                  (case decode_wav lib data of
                     Inl ex \<Rightarrow> (None, st1\<lparr>errors := errors st1 @ [WavReadFailed ex]\<rparr>)
                   | Inr audio_seg \<Rightarrow>
                       (let tmp_wav = temp_name env (disk st1);
                            st2 = st1\<lparr>disk := (disk st1)(tmp_wav \<mapsto> export_wav lib audio_seg)\<rparr>
                        in run_tts env st2 story_text (Some tmp_wav) language_code))
              | Other path \<Rightarrow> run_tts env st1 story_text path language_code))"


section \<open>Mixing narration and background (NLP.py, part 5)\<close>

text \<open>
  Lines 168 to 170: the background is repeated when it is shorter than the
  narration. \<open>//\<close> raises \<open>ZeroDivisionError\<close> on a divisor of zero.
\<close>

definition loop_background :: "'a pydub \<Rightarrow> 'a \<Rightarrow> nat \<Rightarrow> exn + 'a" where
  "loop_background lib background narration_duration =
     (if seg_len lib background < narration_duration then
        (if seg_len lib background = 0 then Inl ZeroDivisionError
         else (let times_to_repeat = narration_duration div seg_len lib background + 1
               in Inr (repeat lib background times_to_repeat)))
      else Inr background)"

text \<open>
  Lines 164 to 179. An exception of any step leaves the function at once: nothing in
  it is caught.
\<close>

definition mix_audio_files ::
  "'a pydub \<Rightarrow> world \<Rightarrow> bytes \<Rightarrow> string \<Rightarrow> real \<Rightarrow> int \<Rightarrow> exn + (bytes \<times> world)" where
  "mix_audio_files lib st narration_data background_path music_volume_db fade_out_ms =
     (case decode_wav lib narration_data of
        Inl e \<Rightarrow> Inl e
      | Inr narration \<Rightarrow>
          (let narration_duration = seg_len lib narration
           in case from_file lib (disk st) background_path of
                Inl e \<Rightarrow> Inl e
              | Inr background \<Rightarrow>
                  (case loop_background lib background narration_duration of
                     Inl e \<Rightarrow> Inl e
                   | Inr looped \<Rightarrow>
                       (case slice_to lib looped narration_duration of
                          Inl e \<Rightarrow> Inl e
                        | Inr trimmed \<Rightarrow>
                            (case fade_out lib trimmed fade_out_ms of
                               Inl e \<Rightarrow> Inl e
                             | Inr faded \<Rightarrow>
                                 (let quiet = apply_gain lib faded music_volume_db
                                  in case overlay lib quiet narration of
                                       Inl e \<Rightarrow> Inl e
                                     | Inr final_mix \<Rightarrow>
                                         Inr (export_wav lib final_mix,
                                              st\<lparr>progress := 100\<rparr>)))))))"


section \<open>The library's segment operations\<close>

text \<open>
  What pydub's \<open>AudioSegment\<close> does in the operations above, for mono audio of
  16-bit samples at one frame rate (so that the overlay has nothing to convert): a
  segment is the list of its samples, one per frame. Frame positions are computed
  in exact arithmetic where CPython uses double precision.
\<close>

text \<open>Python's \<open>data[i:j]\<close> on a sequence, with its negative indices.\<close>

definition py_slice :: "'a list \<Rightarrow> int \<Rightarrow> int \<Rightarrow> 'a list" where
  "py_slice xs i j =
     (let n = int (length xs);
          a = (if i < 0 then max 0 (n + i) else min n i);
          b = (if j < 0 then max 0 (n + j) else min n j)
      in take (nat (b - a)) (drop (nat a) xs))"

text \<open>Python's \<open>round(p / q)\<close>: to the nearest integer, a tie to the even one.\<close>

definition py_round_div :: "nat \<Rightarrow> nat \<Rightarrow> nat" where
  "py_round_div p q =
     (let k = p div q; r = p mod q
      in if 2 * r < q then k
         else if q < 2 * r then k + 1
         else if even k then k else k + 1)"

text \<open>Python's \<open>int(x)\<close> on a float: towards zero.\<close>

definition py_int :: "real \<Rightarrow> int" where
  "py_int x = (if 0 \<le> x then \<lfloor>x\<rfloor> else \<lceil>x\<rceil>)"

text \<open>\<open>__len__\<close>: \<open>round(1000 * (frame_count / frame_rate))\<close>, in milliseconds.\<close>

definition pydub_len :: "nat \<Rightarrow> 'a list \<Rightarrow> nat" where
  "pydub_len rate xs = py_round_div (1000 * length xs) rate"

text \<open>\<open>frame_count(ms)\<close>: \<open>ms * (frame_rate / 1000.0)\<close>.\<close>

definition frame_count :: "nat \<Rightarrow> int \<Rightarrow> real" where
  "frame_count rate ms = of_int ms * (of_nat rate / 1000)"

text \<open>\<open>_parse_position\<close>: a negative position counts from the end, once.\<close>

definition parse_position :: "nat \<Rightarrow> 'a list \<Rightarrow> int \<Rightarrow> int" where
  "parse_position rate xs val =
     py_int (frame_count rate (if val < 0 then int (pydub_len rate xs) - \<bar>val\<bar> else val))"

text \<open>
  Modelled from the spec: pydub's \<open>db_to_float\<close> is not under src/. A gain in
  decibels converts to a linear multiplier as \<open>10^(dB/20)\<close>.
\<close>

definition db_to_float :: "real \<Rightarrow> real" where
  "db_to_float db = 10 powr (db / 20)"

text \<open>
  Modelled from the spec: \<open>audioop.mul\<close> of Python's library is not under src/.
  Every sample is multiplied by the factor and the product is clipped to the valid
  range of the sample format, signed 16-bit; \<open>fbound\<close> is that clipping, which
  then rounds down.
\<close>

definition fbound :: "real \<Rightarrow> int" where
  "fbound val =
     \<lfloor>if val > 32767 then 32767 else if val < - 32768 + 1 then - 32768 else val\<rfloor>"

definition audioop_mul :: "int list \<Rightarrow> real \<Rightarrow> int list" where
  "audioop_mul fragment factor = map (\<lambda>s. fbound (of_int s * factor)) fragment"

text \<open>
  Modelled from the spec: \<open>audioop.add\<close> of Python's library is not under src/.
  The summation is sample by sample, and a sum is clipped to the valid range of the
  sample format, signed 16-bit, so that an overflow does not wrap around.
\<close>

definition add_sample :: "int \<Rightarrow> int \<Rightarrow> int" where
  "add_sample val1 val2 =
     (let newval = val1 + val2
      in if newval > 32767 then 32767 else if newval < - 32768 then - 32768 else newval)"

definition audioop_add :: "int list \<Rightarrow> int list \<Rightarrow> int list" where
  "audioop_add fragment1 fragment2 = map2 add_sample fragment1 fragment2"

text \<open>
  \<open>__getitem__\<close>, after its two branches have fixed the bounds in milliseconds:
  the frames between the parsed positions, filled with silence when up to two
  milliseconds of them are missing.
\<close>

definition get_range :: "nat \<Rightarrow> int list \<Rightarrow> int \<Rightarrow> int \<Rightarrow> exn + int list" where
  "get_range rate xs start_ms stop_ms =
     (let start = parse_position rate xs start_ms;
          stop = parse_position rate xs stop_ms;
          data = py_slice xs start stop;
          missing_frames = (stop - start) - int (length data)
      in if missing_frames \<noteq> 0 then
           (if of_int missing_frames > frame_count rate 2 then Inl TooManyMissingFrames
            else Inr (data @ concat (replicate (nat missing_frames) (audioop_mul (take 1 data) 0))))
         else Inr data)"

text \<open>\<open>seg[start:stop]\<close>, either bound possibly absent, and \<open>seg[ms]\<close>.\<close>

definition get_slice :: "nat \<Rightarrow> int list \<Rightarrow> int option \<Rightarrow> int option \<Rightarrow> exn + int list" where
  "get_slice rate xs start stop =
     (let n = int (pydub_len rate xs);
          s = (case start of None \<Rightarrow> 0 | Some v \<Rightarrow> v);
          e = (case stop of None \<Rightarrow> n | Some v \<Rightarrow> v)
      in get_range rate xs (min s n) (min e n))"

definition get_ms :: "nat \<Rightarrow> int list \<Rightarrow> int \<Rightarrow> exn + int list" where
  "get_ms rate xs ms = get_range rate xs ms (ms + 1)"

text \<open>The pieces of an output are written in order; the first one that raises ends it.\<close>

fun collect :: "(exn + 'a list) list \<Rightarrow> exn + 'a list" where
  "collect [] = Inr []"
| "collect (Inl e # rest) = Inl e"
| "collect (Inr d # rest) = (case collect rest of Inl e \<Rightarrow> Inl e | Inr ds \<Rightarrow> Inr (d @ ds))"

text \<open>
  \<open>fade(to_gain, duration, end=float('inf'))\<close> with no \<open>start\<close>, as
  \<open>fade_out\<close> calls it; \<open>to_power\<close> is \<open>db_to_float(to_gain)\<close>. The end is
  the length of the segment and the start is \<open>duration\<close> before it, negative when
  the fade is longer than the segment. A duration of zero reaches
  \<open>duration = end - start\<close> with \<open>start\<close> still \<open>None\<close>. A fade of more than
  100 ms takes one step a millisecond, a shorter one a step a frame.
\<close>

definition coarse_step ::
  "nat \<Rightarrow> real \<Rightarrow> int list \<Rightarrow> int \<Rightarrow> int \<Rightarrow> nat \<Rightarrow> exn + int list" where
  "coarse_step rate to_power xs start duration i =
     map_sum id
       (\<lambda>chunk. audioop_mul chunk (1 + (to_power - 1) / of_int duration * of_nat i))
       (get_ms rate xs (start + int i))"

definition precise_step ::
  "nat \<Rightarrow> real \<Rightarrow> int list \<Rightarrow> real \<Rightarrow> real \<Rightarrow> nat \<Rightarrow> exn + int list" where
  "precise_step rate to_power xs start_frame fade_frames i =
     Inr (audioop_mul
            (let k = py_int (start_frame + of_nat i) in py_slice xs k (k + 1))
            (1 + (to_power - 1) / fade_frames * of_nat i))"

definition pydub_fade :: "nat \<Rightarrow> real \<Rightarrow> int list \<Rightarrow> int \<Rightarrow> exn + int list" where
  "pydub_fade rate to_power xs duration =
     (let stop = int (pydub_len rate xs)
      in if duration < 0 then Inl InvalidDuration
         else if duration = 0 then Inl TypeError
         else
           (let start = stop - duration;
                before_fade = get_slice rate xs None (Some start);
                steps =
                  (if duration > 100 then
                     map (coarse_step rate to_power xs start duration) [0..<nat duration]
                   else
                     (let start_frame = frame_count rate start;
                          fade_frames = frame_count rate stop - start_frame
                      in map (precise_step rate to_power xs start_frame fade_frames)
                           [0..<nat (py_int fade_frames)]));
                after_fade = map_sum id (\<lambda>d. audioop_mul d to_power)
                               (get_slice rate xs (Some stop) None)
            in collect (before_fade # steps @ [after_fade])))"

text \<open>\<open>fade_out(duration)\<close> is \<open>fade(to_gain=-120, duration=duration, end=float('inf'))\<close>.\<close>

definition pydub_fade_out :: "nat \<Rightarrow> int list \<Rightarrow> int \<Rightarrow> exn + int list" where
  "pydub_fade_out rate xs duration = pydub_fade rate (db_to_float (- 120)) xs duration"

text \<open>\<open>seg + dB\<close> is \<open>apply_gain(dB)\<close>.\<close>

definition pydub_apply_gain :: "int list \<Rightarrow> real \<Rightarrow> int list" where
  "pydub_apply_gain xs volume_change = audioop_mul xs (db_to_float volume_change)"

text \<open>
  \<open>seg1.overlay(seg2, position=0)\<close>, once: \<open>seg1[:0]\<close>, then the sum of
  \<open>seg2\<close> and as much of \<open>seg1[0:]\<close>, each cut to the shorter of the two, then
  the rest of \<open>seg1[0:]\<close>.
\<close>

definition pydub_overlay :: "nat \<Rightarrow> int list \<Rightarrow> int list \<Rightarrow> exn + int list" where
  "pydub_overlay rate seg1 seg2 =
     (case get_slice rate seg1 None (Some 0) of
        Inl e \<Rightarrow> Inl e
      | Inr head \<Rightarrow>
          (case get_slice rate seg1 (Some 0) None of
             Inl e \<Rightarrow> Inl e
           | Inr base \<Rightarrow>
               (let m = min (length base) (length seg2)
                in Inr (head @ audioop_add (take m base) (take m seg2) @ drop m base))))"

text \<open>The library at a frame rate, around a decoder and an encoder.\<close>

definition pydub_mono ::
  "nat \<Rightarrow> (bytes \<Rightarrow> exn + int list) \<Rightarrow> (int list \<Rightarrow> bytes) \<Rightarrow> int list pydub" where
  "pydub_mono rate decode encode =
     \<lparr>decode_wav = decode,
      decode_any = decode,
      seg_len = pydub_len rate,
      repeat = (\<lambda>xs n. concat (replicate n xs)),
      slice_to = (\<lambda>xs d. get_slice rate xs None (Some (int d))),
      fade_out = pydub_fade_out rate,
      apply_gain = pydub_apply_gain,
      overlay = pydub_overlay rate,
      export_wav = encode\<rparr>"


section \<open>A small instance of the parameters\<close>

text \<open>
  An instance on which the definitions run: the library at 1000 frames a second,
  one frame a millisecond, with a container that is well formed when its bytes are
  below 256 and holds one sample a byte.
\<close>

definition toy_decode :: "bytes \<Rightarrow> exn + int list" where
  "toy_decode b = (if list_all (\<lambda>x. x < 256) b then Inr (map int b) else Inl CouldntDecodeError)"

definition toy_lib :: "int list pydub" where
  "toy_lib = pydub_mono 1000 toy_decode (map nat)"

definition toy_coqui :: coqui where
  "toy_coqui =
     \<lparr>TTS_init = (\<lambda>name. None),
      tts_to_file = (\<lambda>text speaker language. if text = [] then Inl (OtherError ''empty text'') else Inr (map of_char text)),
      temp_name = (\<lambda>fs. ''/tmp/tmp0.wav'')\<rparr>"

definition toy_world :: world where
  "toy_world =
     \<lparr>feedback = None, progress = 0, errors = [],
      disk = [''background_sound/space.wav'' \<mapsto> [7, 9], ''background_sound/sea.wav'' \<mapsto> []]\<rparr>"


section \<open>Properties of the music selection\<close>

lemma str_contains_iff:
  "str_contains key s \<longleftrightarrow> (\<exists>ps ss. s = ps @ key @ ss)"
proof (induction s)
  case Nil
  show ?case by auto
next
  case (Cons c cs)
  have "(\<exists>ps ss. c # cs = ps @ key @ ss) \<longleftrightarrow>
        prefix key (c # cs) \<or> (\<exists>ps ss. cs = ps @ key @ ss)"
  proof
    assume "\<exists>ps ss. c # cs = ps @ key @ ss"
    then obtain ps ss where eq: "c # cs = ps @ key @ ss" by blast
    show "prefix key (c # cs) \<or> (\<exists>ps ss. cs = ps @ key @ ss)"
    proof (cases ps)
      case Nil
      with eq show ?thesis by (auto simp: prefix_def)
    next
      case (Cons p ps')
      with eq have "cs = ps' @ key @ ss" by simp
      then show ?thesis by blast
    qed
  next
    assume "prefix key (c # cs) \<or> (\<exists>ps ss. cs = ps @ key @ ss)"
    then show "\<exists>ps ss. c # cs = ps @ key @ ss"
    proof
      assume "prefix key (c # cs)"
      then obtain ss where "c # cs = key @ ss" by (auto simp: prefix_def)
      then have "c # cs = [] @ key @ ss" by simp
      then show ?thesis by blast
    next
      assume "\<exists>ps ss. cs = ps @ key @ ss"
      then obtain ps ss where "cs = ps @ key @ ss" by blast
      then have "c # cs = (c # ps) @ key @ ss" by simp
      then show ?thesis by blast
    qed
  qed
  with Cons.IH show ?case by simp
qed

lemma scan_items_first:
  "(\<exists>i<length tbl. str_contains (fst (tbl ! i)) low
        \<and> (\<forall>j<i. \<not> str_contains (fst (tbl ! j)) low)
        \<and> scan_items tbl low = snd (tbl ! i))
   \<or> ((\<forall>i<length tbl. \<not> str_contains (fst (tbl ! i)) low)
        \<and> scan_items tbl low = DEFAULT_BG_MUSIC)"
proof (induction tbl)
  case Nil
  show ?case by simp
next
  case (Cons kv rest)
  obtain key music_file where kv: "kv = (key, music_file)" by (cases kv)
  show ?case
  proof (cases "str_contains key low")
    case True
    then have "str_contains (fst ((kv # rest) ! 0)) low
        \<and> (\<forall>j<0. \<not> str_contains (fst ((kv # rest) ! j)) low)
        \<and> scan_items (kv # rest) low = snd ((kv # rest) ! 0)"
      by (simp add: kv)
    then show ?thesis by blast
  next
    case False
    from Cons.IH show ?thesis
    proof
      assume "\<exists>i<length rest. str_contains (fst (rest ! i)) low
        \<and> (\<forall>j<i. \<not> str_contains (fst (rest ! j)) low)
        \<and> scan_items rest low = snd (rest ! i)"
      then obtain i where i: "i < length rest" "str_contains (fst (rest ! i)) low"
        "\<forall>j<i. \<not> str_contains (fst (rest ! j)) low"
        "scan_items rest low = snd (rest ! i)" by blast
      have "\<forall>j<Suc i. \<not> str_contains (fst ((kv # rest) ! j)) low"
        using False i(3) by (auto simp: kv less_Suc_eq_0_disj)
      moreover have "scan_items (kv # rest) low = snd ((kv # rest) ! Suc i)"
        using False i(4) by (simp add: kv)
      moreover have "Suc i < length (kv # rest)"
        "str_contains (fst ((kv # rest) ! Suc i)) low"
        using i(1,2) by simp_all
      ultimately show ?thesis by blast
    next
      assume a: "(\<forall>i<length rest. \<not> str_contains (fst (rest ! i)) low)
        \<and> scan_items rest low = DEFAULT_BG_MUSIC"
      have "\<forall>i<length (kv # rest). \<not> str_contains (fst ((kv # rest) ! i)) low"
        using False a by (auto simp: kv less_Suc_eq_0_disj)
      moreover have "scan_items (kv # rest) low = DEFAULT_BG_MUSIC"
        using False a by (simp add: kv)
      ultimately show ?thesis by blast
    qed
  qed
qed

text \<open>
  Claim C3. For every input string and whatever Python's \<open>str.lower\<close> makes of
  it, \<open>pick_background_music\<close> lower-cases the input with \<open>str.lower\<close>, scans
  the keyword table in its insertion order and returns the path of the first
  keyword that occurs as a substring of the lowered input; when no keyword occurs
  it returns the default path, and so it does for the empty string, which
  \<open>str.lower\<close> leaves empty. The function returns a value for every string and
  reads or writes no state.
\<close>

theorem pick_background_music_first_match:
  "((\<exists>i<length THEME_MUSIC_MAP.
        (\<exists>ps ss. str_lower theme = ps @ fst (THEME_MUSIC_MAP ! i) @ ss)
      \<and> (\<forall>j<i. \<not> (\<exists>ps ss. str_lower theme = ps @ fst (THEME_MUSIC_MAP ! j) @ ss))
      \<and> pick_background_music str_lower theme = snd (THEME_MUSIC_MAP ! i))
    \<or> ((\<forall>i<length THEME_MUSIC_MAP.
          \<not> (\<exists>ps ss. str_lower theme = ps @ fst (THEME_MUSIC_MAP ! i) @ ss))
      \<and> pick_background_music str_lower theme = DEFAULT_BG_MUSIC))
   \<and> (str_lower [] = [] \<longrightarrow> pick_background_music str_lower [] = DEFAULT_BG_MUSIC)"
proof
  show "(\<exists>i<length THEME_MUSIC_MAP.
        (\<exists>ps ss. str_lower theme = ps @ fst (THEME_MUSIC_MAP ! i) @ ss)
      \<and> (\<forall>j<i. \<not> (\<exists>ps ss. str_lower theme = ps @ fst (THEME_MUSIC_MAP ! j) @ ss))
      \<and> pick_background_music str_lower theme = snd (THEME_MUSIC_MAP ! i))
    \<or> ((\<forall>i<length THEME_MUSIC_MAP.
          \<not> (\<exists>ps ss. str_lower theme = ps @ fst (THEME_MUSIC_MAP ! i) @ ss))
      \<and> pick_background_music str_lower theme = DEFAULT_BG_MUSIC)"
    using scan_items_first [of THEME_MUSIC_MAP "str_lower theme"]
    unfolding pick_background_music_def str_contains_iff .
  show "str_lower [] = [] \<longrightarrow> pick_background_music str_lower [] = DEFAULT_BG_MUSIC"
    by (simp add: pick_background_music_def THEME_MUSIC_MAP_def ascii_def)
qed

theorem pick_background_music_first_match_witness:
  "pick_background_music lower_basic (ascii ''Sea and SPACE'') = ''background_sound/space.wav''
   \<and> (\<exists>i<length THEME_MUSIC_MAP.
         (\<exists>ps ss. lower_basic (ascii ''Sea and SPACE'') = ps @ fst (THEME_MUSIC_MAP ! i) @ ss)
       \<and> pick_background_music lower_basic (ascii ''Sea and SPACE'') = snd (THEME_MUSIC_MAP ! i))
   \<and> pick_background_music lower_basic (ascii ''SCI-F'' @ [304]) = ''background_sound/sci-fi.wav''
   \<and> pick_background_music lower_basic [] = DEFAULT_BG_MUSIC"
proof -
  have v: "pick_background_music lower_basic (ascii ''Sea and SPACE'') = ''background_sound/space.wav''"
    by code_simp
  have d: "pick_background_music lower_basic (ascii ''Sea and SPACE'') \<noteq> DEFAULT_BG_MUSIC"
    unfolding v by (simp add: DEFAULT_BG_MUSIC_def)
  have u: "pick_background_music lower_basic (ascii ''SCI-F'' @ [304]) = ''background_sound/sci-fi.wav''"
    by code_simp
  have e: "lower_basic [] = []"
    by (simp add: lower_basic_def)
  from pick_background_music_first_match [of lower_basic "ascii ''Sea and SPACE''"] d
  have a: "\<exists>i<length THEME_MUSIC_MAP.
         (\<exists>ps ss. lower_basic (ascii ''Sea and SPACE'') = ps @ fst (THEME_MUSIC_MAP ! i) @ ss)
       \<and> pick_background_music lower_basic (ascii ''Sea and SPACE'') = snd (THEME_MUSIC_MAP ! i)"
    by blast
  from pick_background_music_first_match [of lower_basic "[]"] e
  have b: "pick_background_music lower_basic [] = DEFAULT_BG_MUSIC"
    by blast
  from v a u b show ?thesis by blast
qed


section \<open>The library at one frame a millisecond\<close>

lemma py_round_div_mult: "0 < q \<Longrightarrow> py_round_div (q * n) q = n"
  by (simp add: py_round_div_def)

lemma pydub_len_1000: "pydub_len 1000 xs = length xs"
  by (simp add: pydub_len_def py_round_div_mult)

lemma frame_count_1000: "frame_count 1000 ms = of_int ms"
  by (simp add: frame_count_def)

lemma py_int_of_int: "py_int (of_int k) = k"
  by (simp add: py_int_def)

lemma parse_position_1000:
  "parse_position 1000 xs v = (if v < 0 then int (length xs) + v else v)"
  by (simp add: parse_position_def pydub_len_1000 frame_count_1000 py_int_of_int)

lemma get_range_1000:
  "get_range 1000 xs a b =
     (let start = (if a < 0 then int (length xs) + a else a);
          stop = (if b < 0 then int (length xs) + b else b);
          data = py_slice xs start stop;
          missing_frames = (stop - start) - int (length data)
      in if missing_frames \<noteq> 0 then
           (if missing_frames > 2 then Inl TooManyMissingFrames
            else Inr (data @ concat (replicate (nat missing_frames) (audioop_mul (take 1 data) 0))))
         else Inr data)"
  unfolding get_range_def parse_position_1000 frame_count_1000 Let_def
  by simp

lemma get_ms_far:
  assumes "v < - 2 * int (length xs)"
  shows "get_ms 1000 xs v = Inr []"
  using assms
  by (auto simp: get_ms_def get_range_1000 py_slice_def Let_def audioop_mul_def)

lemma coarse_step_far:
  assumes "start + int i < - 2 * int (length xs)"
  shows "coarse_step 1000 to_power xs start duration i = Inr []"
  by (simp add: coarse_step_def get_ms_far [OF assms] audioop_mul_def)

lemma collect_append:
  "collect (rs @ ss) =
     (case collect rs of
        Inl e \<Rightarrow> Inl e
      | Inr d \<Rightarrow> (case collect ss of Inl e \<Rightarrow> Inl e | Inr d' \<Rightarrow> Inr (d @ d')))"
proof (induction rs)
  case Nil
  show ?case by (cases "collect ss") simp_all
next
  case (Cons r rs)
  show ?case
  proof (cases r)
    case (Inl e)
    then show ?thesis by simp
  next
    case (Inr d)
    show ?thesis
    proof (cases "collect rs")
      case (Inl e)
      with Inr Cons.IH show ?thesis by simp
    next
      case r: (Inr ds)
      show ?thesis
      proof (cases "collect ss")
        case (Inl e)
        with Inr r Cons.IH show ?thesis by simp
      next
        case s: (Inr ds')
        with Inr r Cons.IH show ?thesis by simp
      qed
    qed
  qed
qed

lemma collect_all_empty: "(\<And>r. r \<in> set rs \<Longrightarrow> r = Inr []) \<Longrightarrow> collect rs = Inr []"
proof (induction rs)
  case Nil
  show ?case by simp
next
  case (Cons r rs)
  have "r = Inr []" using Cons.prems by simp
  moreover have "collect rs = Inr []" using Cons by simp
  ultimately show ?case by simp
qed

lemma py_slice_prefix: "0 \<le> d \<Longrightarrow> py_slice xs 0 d = take (nat d) xs"
  by (simp add: py_slice_def Let_def min_def)

lemma py_slice_same: "py_slice xs i i = []"
  by (simp add: py_slice_def Let_def)

lemma py_slice_before: "j \<le> - int (length xs) \<Longrightarrow> py_slice xs 0 j = []"
  by (cases "j < 0") (simp_all add: py_slice_def Let_def)

lemma get_slice_all_1000: "get_slice 1000 xs (Some 0) None = Inr xs"
  by (simp add: get_slice_def pydub_len_1000 get_range_1000 py_slice_prefix)

lemma get_slice_none_1000: "get_slice 1000 xs None (Some 0) = Inr []"
  by (simp add: get_slice_def pydub_len_1000 get_range_1000 py_slice_prefix)

lemma get_slice_tail_1000: "get_slice 1000 xs (Some (int (length xs))) None = Inr []"
  by (simp add: get_slice_def pydub_len_1000 get_range_1000 py_slice_same)

lemma get_range_prefix_1000:
  "k \<le> length xs \<Longrightarrow> get_range 1000 xs 0 (int k) = Inr (take k xs)"
  by (simp add: get_range_1000 py_slice_prefix Let_def)

lemma get_slice_take_1000: "get_slice 1000 xs None (Some (int d)) = Inr (take d xs)"
proof -
  have t: "take (min d (length xs)) xs = take d xs"
    by (cases "d \<le> length xs") (simp_all add: min_def)
  have "get_slice 1000 xs None (Some (int d)) = get_range 1000 xs 0 (int (min d (length xs)))"
    by (simp add: get_slice_def pydub_len_1000 Let_def of_nat_min)
  also have "\<dots> = Inr (take (min d (length xs)) xs)"
    by (rule get_range_prefix_1000) simp
  finally show ?thesis unfolding t .
qed

lemma get_slice_before_1000:
  assumes "v \<le> - 2 * int (length xs)" and "v < 0"
  shows "get_slice 1000 xs None (Some v) = Inr []"
proof -
  have e: "min v (int (length xs)) = v" using assms by simp
  have s: "py_slice xs 0 (int (length xs) + v) = []"
    using assms by (intro py_slice_before) simp
  have n: "\<not> 2 < int (length xs) + v" using assms by simp
  show ?thesis
    using assms(2) n
    by (simp add: get_slice_def pydub_len_1000 get_range_1000 e s Let_def audioop_mul_def
        py_slice_same)
qed

lemma db_to_float_fade: "db_to_float (- 120) = 1 / 1000000"
proof -
  have "(10::real) powr (- 6) = 1 / 10 powr 6" by (simp add: powr_minus field_simps)
  also have "(10::real) powr 6 = 10 ^ 6" by (simp add: powr_numeral)
  finally show ?thesis by (simp add: db_to_float_def)
qed

lemma fade_unfold_long:
  assumes "100 < duration"
  shows "pydub_fade 1000 to_power xs duration =
     collect (get_slice 1000 xs None (Some (int (length xs) - duration))
              # map (coarse_step 1000 to_power xs (int (length xs) - duration) duration)
                  [0..<nat duration]
              @ [map_sum id (\<lambda>d. audioop_mul d to_power)
                   (get_slice 1000 xs (Some (int (length xs))) None)])"
  using assms by (simp add: pydub_fade_def pydub_len_1000 Let_def)

text \<open>
  A fade of more than 100 ms that is at least three times as long as the segment:
  only its last steps, three for each millisecond of the segment, find frames.
\<close>

lemma fade_long_1000:
  assumes long: "100 < duration" and far: "3 * int (length xs) \<le> duration"
  shows "pydub_fade 1000 to_power xs duration =
     collect (map (coarse_step 1000 to_power xs (int (length xs) - duration) duration)
                [nat duration - 3 * length xs..<nat duration])"
proof -
  let ?start = "int (length xs) - duration"
  let ?step = "coarse_step 1000 to_power xs ?start duration"
  let ?m = "nat duration - 3 * length xs"
  have before: "get_slice 1000 xs None (Some ?start) = Inr []"
    using long far by (intro get_slice_before_1000) simp_all
  have after: "map_sum id (\<lambda>d. audioop_mul d to_power)
                 (get_slice 1000 xs (Some (int (length xs))) None) = Inr []"
    by (simp add: get_slice_tail_1000 audioop_mul_def)
  have split: "[0..<nat duration] = [0..<?m] @ [?m..<nat duration]"
  proof -
    have "[0..<?m + (nat duration - ?m)] = [0..<?m] @ [?m..<?m + (nat duration - ?m)]"
      by (rule upt_add_eq_append) simp
    then show ?thesis by simp
  qed
  have empty: "collect (map ?step [0..<?m]) = Inr []"
  proof (rule collect_all_empty)
    fix r assume "r \<in> set (map ?step [0..<?m])"
    then obtain i where i: "i < ?m" and r: "r = ?step i" by auto
    from i far have "?start + int i < - 2 * int (length xs)" by linarith
    then show "r = Inr []" unfolding r by (rule coarse_step_far)
  qed
  have last: "collect (rs @ [Inr []]) = collect rs" for rs :: "(exn + int list) list"
    by (cases "collect rs") (simp_all add: collect_append)
  have "pydub_fade 1000 to_power xs duration
      = collect (Inr [] # (map ?step [0..<?m] @ map ?step [?m..<nat duration]) @ [Inr []])"
    unfolding fade_unfold_long [OF long] before after split map_append ..
  also have "\<dots> = collect ((map ?step [0..<?m] @ map ?step [?m..<nat duration]) @ [Inr []])"
    by (cases "collect ((map ?step [0..<?m] @ map ?step [?m..<nat duration]) @ [Inr []])")
      simp_all
  also have "\<dots> = collect (map ?step [0..<?m] @ map ?step [?m..<nat duration])"
    by (rule last)
  also have "\<dots> = collect (map ?step [?m..<nat duration])"
    by (cases "collect (map ?step [?m..<nat duration])") (simp_all add: collect_append empty)
  finally show ?thesis .
qed

lemma fade_five_3000:
  "pydub_fade_out 1000 [7, 9, 7, 9, 7] 3000 = Inr [0, 0, 0, 0, 0, 0, 0, 0, 0, 0, 0, 0, 0]"
proof -
  have r: "[nat 3000 - 3 * length [7, 9, 7, 9, 7 :: int]..<nat 3000]
      = [2985, 2986, 2987, 2988, 2989, 2990, 2991, 2992, 2993, 2994, 2995, 2996, 2997, 2998, 2999]"
    by (simp add: upt_rec)
  have "pydub_fade 1000 (1 / 1000000) [7, 9, 7, 9, 7] 3000
      = collect (map (coarse_step 1000 (1 / 1000000) [7, 9, 7, 9, 7]
                        (int (length [7, 9, 7, 9, 7 :: int]) - 3000) 3000)
                   [2985, 2986, 2987, 2988, 2989, 2990, 2991, 2992, 2993, 2994, 2995, 2996,
                    2997, 2998, 2999])"
    unfolding r [symmetric] by (rule fade_long_1000) simp_all
  also have "\<dots> = Inr [0, 0, 0, 0, 0, 0, 0, 0, 0, 0, 0, 0, 0]"
    by (simp add: coarse_step_def get_ms_def get_range_1000 py_slice_def audioop_mul_def
        fbound_def)
  finally show ?thesis
    by (simp add: pydub_fade_out_def db_to_float_fade)
qed

lemma fade_two_3000:
  "pydub_fade_out 1000 [1000, 2000] 3000 = Inr [2, 1, 0, 0]"
proof -
  have r: "[nat 3000 - 3 * length [1000, 2000 :: int]..<nat 3000]
      = [2994, 2995, 2996, 2997, 2998, 2999]"
    by (simp add: upt_rec)
  have "pydub_fade 1000 (1 / 1000000) [1000, 2000] 3000
      = collect (map (coarse_step 1000 (1 / 1000000) [1000, 2000]
                        (int (length [1000, 2000 :: int]) - 3000) 3000)
                   [2994, 2995, 2996, 2997, 2998, 2999])"
    unfolding r [symmetric] by (rule fade_long_1000) simp_all
  also have "\<dots> = Inr [2, 1, 0, 0]"
    by (simp add: coarse_step_def get_ms_def get_range_1000 py_slice_def audioop_mul_def
        fbound_def)
  finally show ?thesis
    by (simp add: pydub_fade_out_def db_to_float_fade)
qed



lemma overlay_1000:
  "pydub_overlay 1000 seg1 seg2 = Inr (map2 add_sample seg1 seg2 @ drop (length seg2) seg1)"
proof -
  let ?m = "min (length seg1) (length seg2)"
  have "zip (take ?m seg1) (take ?m seg2) = take ?m (zip seg1 seg2)"
    by (simp add: take_zip)
  also have "\<dots> = zip seg1 seg2" by simp
  finally have z: "zip (take ?m seg1) (take ?m seg2) = zip seg1 seg2" .
  have d: "drop ?m seg1 = drop (length seg2) seg1"
    by (cases "length seg2 \<le> length seg1") (simp_all add: min_def)
  show ?thesis
    by (simp add: pydub_overlay_def get_slice_none_1000 get_slice_all_1000 audioop_add_def
        Let_def z d)
qed

lemma toy_lib_fields:
  "decode_wav toy_lib = toy_decode"
  "decode_any toy_lib = toy_decode"
  "seg_len toy_lib xs = length xs"
  "repeat toy_lib xs n = concat (replicate n xs)"
  "slice_to toy_lib xs d = Inr (take d xs)"
  "fade_out toy_lib = pydub_fade_out 1000"
  "apply_gain toy_lib = pydub_apply_gain"
  "overlay toy_lib = pydub_overlay 1000"
  "export_wav toy_lib = map nat"
  by (simp_all add: toy_lib_def pydub_mono_def pydub_len_1000 get_slice_take_1000)

lemma toy_world_space:
  "from_file toy_lib (disk toy_world) ''background_sound/space.wav'' = Inr [7, 9]"
  by (simp add: from_file_def toy_world_def toy_lib_fields toy_decode_def)

lemma toy_world_sea:
  "from_file toy_lib (disk toy_world) ''background_sound/sea.wav'' = Inr []"
  by (simp add: from_file_def toy_world_def toy_lib_fields toy_decode_def)

lemma toy_decode_wav: "list_all (\<lambda>x. x < 256) b \<Longrightarrow> decode_wav toy_lib b = Inr (map int b)"
  by (simp add: toy_lib_fields toy_decode_def)


section \<open>Properties of the mixer\<close>

lemma mix_audio_files_steps:
  assumes "decode_wav lib narration_data = Inr narration"
      and "from_file lib (disk st) background_path = Inr background"
      and "loop_background lib background (seg_len lib narration) = Inr looped"
      and "slice_to lib looped (seg_len lib narration) = Inr trimmed"
      and "fade_out lib trimmed fade_out_ms = Inr faded"
      and "overlay lib (apply_gain lib faded music_volume_db) narration = Inr final_mix"
  shows "mix_audio_files lib st narration_data background_path music_volume_db fade_out_ms
           = Inr (export_wav lib final_mix, st\<lparr>progress := 100\<rparr>)"
  using assms by (simp add: mix_audio_files_def)

text \<open>
  Claim C1. The mix has the duration of the narration, whatever the durations of
  the two inputs. The code does not keep this for a narration shorter than the
  fade: here the narration is 5 ms long, the background 2 ms, the gain and the fade
  are the defaults of the function, \<open>-15\<close> dB and 3000 ms, and the bytes returned
  decode to a segment of 13 ms, the narration followed by 8 ms that are not in it.
  The faded background leaves \<open>fade_out\<close> 13 ms long and the overlay keeps the
  length of what it is laid over.
\<close>

theorem mix_audio_files_default_fade_lengthens:
  "decode_wav toy_lib [1, 2, 3, 4, 5] = Inr [1, 2, 3, 4, 5]
   \<and> seg_len toy_lib [1, 2, 3, 4, 5] = 5
   \<and> from_file toy_lib (disk toy_world) ''background_sound/space.wav'' = Inr [7, 9]
   \<and> seg_len toy_lib [7, 9] = 2
   \<and> mix_audio_files toy_lib toy_world [1, 2, 3, 4, 5] ''background_sound/space.wav'' (- 15) 3000
       = Inr ([1, 2, 3, 4, 5, 0, 0, 0, 0, 0, 0, 0, 0], toy_world\<lparr>progress := 100\<rparr>)
   \<and> decode_wav toy_lib [1, 2, 3, 4, 5, 0, 0, 0, 0, 0, 0, 0, 0]
       = Inr [1, 2, 3, 4, 5, 0, 0, 0, 0, 0, 0, 0, 0]
   \<and> seg_len toy_lib [1, 2, 3, 4, 5, 0, 0, 0, 0, 0, 0, 0, 0] = 13"
proof -
  have d: "decode_wav toy_lib [1, 2, 3, 4, 5] = Inr [1, 2, 3, 4, 5]"
    by (simp add: toy_decode_wav)
  have n: "seg_len toy_lib [1, 2, 3, 4, 5] = 5"
    by (simp add: toy_lib_fields)
  have b: "seg_len toy_lib [7, 9] = 2"
    by (simp add: toy_lib_fields)
  have q: "(5::nat) div 2 + 1 = 3" by simp
  have r3: "concat (replicate 3 [7, 9 :: int]) = [7, 9, 7, 9, 7, 9]"
    by (simp add: numeral_3_eq_3)
  have l: "loop_background toy_lib [7, 9] 5 = Inr [7, 9, 7, 9, 7, 9]"
    unfolding loop_background_def b Let_def q by (simp add: toy_lib_fields(4) r3)
  have s: "slice_to toy_lib [7, 9, 7, 9, 7, 9] 5 = Inr [7, 9, 7, 9, 7]"
    by (simp add: toy_lib_fields)
  have f: "fade_out toy_lib [7, 9, 7, 9, 7] 3000 = Inr [0, 0, 0, 0, 0, 0, 0, 0, 0, 0, 0, 0, 0]"
    by (simp add: toy_lib_fields fade_five_3000)
  have g: "apply_gain toy_lib [0, 0, 0, 0, 0, 0, 0, 0, 0, 0, 0, 0, 0] (- 15)
      = [0, 0, 0, 0, 0, 0, 0, 0, 0, 0, 0, 0, 0]"
    by (simp add: toy_lib_fields pydub_apply_gain_def audioop_mul_def fbound_def)
  have ov: "overlay toy_lib [0, 0, 0, 0, 0, 0, 0, 0, 0, 0, 0, 0, 0] [1, 2, 3, 4, 5]
      = Inr [1, 2, 3, 4, 5, 0, 0, 0, 0, 0, 0, 0, 0]"
    by (simp add: toy_lib_fields overlay_1000 add_sample_def)
  have e: "export_wav toy_lib [1, 2, 3, 4, 5, 0, 0, 0, 0, 0, 0, 0, 0]
      = [1, 2, 3, 4, 5, 0, 0, 0, 0, 0, 0, 0, 0]"
    by (simp add: toy_lib_fields)
  have m: "mix_audio_files toy_lib toy_world [1, 2, 3, 4, 5] ''background_sound/space.wav'' (- 15) 3000
       = Inr ([1, 2, 3, 4, 5, 0, 0, 0, 0, 0, 0, 0, 0], toy_world\<lparr>progress := 100\<rparr>)"
    using mix_audio_files_steps [of toy_lib "[1, 2, 3, 4, 5]" "[1, 2, 3, 4, 5]" toy_world
        "''background_sound/space.wav''" "[7, 9]" "[7, 9, 7, 9, 7, 9]" "[7, 9, 7, 9, 7]" 3000
        "[0, 0, 0, 0, 0, 0, 0, 0, 0, 0, 0, 0, 0]" "- 15" "[1, 2, 3, 4, 5, 0, 0, 0, 0, 0, 0, 0, 0]"]
    unfolding n g e using d toy_world_space l s f ov by blast
  have d13: "decode_wav toy_lib [1, 2, 3, 4, 5, 0, 0, 0, 0, 0, 0, 0, 0]
       = Inr [1, 2, 3, 4, 5, 0, 0, 0, 0, 0, 0, 0, 0]"
    by (simp add: toy_decode_wav)
  have n13: "seg_len toy_lib [1, 2, 3, 4, 5, 0, 0, 0, 0, 0, 0, 0, 0] = 13"
    by (simp add: toy_lib_fields)
  from d n toy_world_space b m d13 n13 show ?thesis by blast
qed

text \<open>
  Claim C2. A background shorter than the narration is repeated
  \<open>floor(D / B) + 1\<close> times, which makes it at least as long as the narration.
  The code computes that count from durations rounded to the millisecond, and the
  repeated background can come out shorter than the narration: 440978 frames at
  44100 frames a second have a duration of 10000 ms, a narration of 39999 ms asks
  for 4 repetitions, and the 1763912 frames of the repeated background have a
  duration of 39998 ms. A background of no frames, under a narration of 1 ms, is
  not repeated at all: the division raises.
\<close>

theorem loop_background_rounding_shortfall:
  "seg_len (pydub_mono 44100 toy_decode (map nat)) (replicate 440978 0) = 10000
   \<and> loop_background (pydub_mono 44100 toy_decode (map nat)) (replicate 440978 0) 39999
       = Inr (concat (replicate 4 (replicate 440978 0)))
   \<and> length (concat (replicate 4 (replicate 440978 (0::int)))) = 1763912
   \<and> seg_len (pydub_mono 44100 toy_decode (map nat)) (concat (replicate 4 (replicate 440978 0)))
       = 39998
   \<and> loop_background (pydub_mono 44100 toy_decode (map nat)) [] 1 = Inl ZeroDivisionError"
proof -
  have c: "length (concat (replicate 4 (replicate 440978 (0::int)))) = 1763912"
    by (simp add: length_concat sum_list_replicate)
  have a: "seg_len (pydub_mono 44100 toy_decode (map nat)) (replicate 440978 0) = 10000"
    by (simp add: pydub_mono_def pydub_len_def py_round_div_def)
  have b: "seg_len (pydub_mono 44100 toy_decode (map nat))
             (concat (replicate 4 (replicate 440978 0))) = 39998"
    by (simp add: pydub_mono_def pydub_len_def c py_round_div_def)
  have r: "repeat (pydub_mono 44100 toy_decode (map nat)) xs n = concat (replicate n xs)"
    for xs n
    by (simp add: pydub_mono_def)
  have l: "loop_background (pydub_mono 44100 toy_decode (map nat)) (replicate 440978 0) 39999
       = Inr (concat (replicate 4 (replicate 440978 0)))"
    unfolding loop_background_def a r by simp
  have z: "loop_background (pydub_mono 44100 toy_decode (map nat)) [] 1 = Inl ZeroDivisionError"
    by (simp add: loop_background_def pydub_mono_def pydub_len_def py_round_div_def)
  from a l c b z show ?thesis by blast
qed

text \<open>
  Claim C4. A fade longer than the narration is clamped to the whole trimmed
  background and does not raise; a shorter one covers the end of it. The code hands
  \<open>fade_out_ms\<close> to \<open>fade_out\<close> as it is, and the library does not clamp: a
  background trimmed to 2 ms comes back from the default fade of 3000 ms as a
  segment of 4 ms, its first millisecond three times over and its second once. A
  fade of 0 ms, which is not longer than any narration, raises.
\<close>

theorem fade_out_longer_than_buffer:
  "slice_to toy_lib [1000, 2000, 1000, 2000] 2 = Inr [1000, 2000]
   \<and> seg_len toy_lib [1000, 2000] = 2
   \<and> fade_out toy_lib [1000, 2000] 3000 = Inr [2, 1, 0, 0]
   \<and> seg_len toy_lib [2, 1, 0, 0] = 4
   \<and> fade_out toy_lib [1000, 2000] 0 = Inl TypeError"
proof -
  have s: "slice_to toy_lib [1000, 2000, 1000, 2000] 2 = Inr [1000, 2000]"
    by (simp add: toy_lib_fields(5))
  have n: "seg_len toy_lib [1000, 2000] = 2"
    by (simp add: toy_lib_fields(3))
  have f: "fade_out toy_lib [1000, 2000] 3000 = Inr [2, 1, 0, 0]"
    by (simp add: toy_lib_fields(6) fade_two_3000)
  have m: "seg_len toy_lib [2, 1, 0, 0] = 4"
    by (simp add: toy_lib_fields(3))
  have z: "fade_out toy_lib [1000, 2000] 0 = Inl TypeError"
    by (simp add: toy_lib_fields(6) pydub_fade_out_def pydub_fade_def)
  from s n f m z show ?thesis by blast
qed


text \<open>
  Claim C10. The mixer is not total: when the background decodes to a segment of
  duration zero and the narration to a segment of positive duration, the
  floor division by the duration of the background raises \<open>ZeroDivisionError\<close>,
  which is neither a decoding error nor a missing file.
\<close>

theorem mix_audio_files_zero_length_background:
  assumes "decode_wav lib narration_data = Inr narration"
      and "from_file lib (disk st) background_path = Inr background"
      and "seg_len lib background = 0"
      and "0 < seg_len lib narration"
  shows "mix_audio_files lib st narration_data background_path music_volume_db fade_out_ms
           = Inl ZeroDivisionError"
proof -
  have "loop_background lib background (seg_len lib narration) = Inl ZeroDivisionError"
    using assms(3,4) by (simp add: loop_background_def)
  with assms(1,2) show ?thesis by (simp add: mix_audio_files_def)
qed

theorem mix_audio_files_zero_length_background_witness:
  "mix_audio_files toy_lib toy_world [1] ''background_sound/sea.wav'' (-15) 3000
     = Inl ZeroDivisionError"
proof -
  have d: "decode_wav toy_lib [1] = Inr [1]"
    by (simp add: toy_decode_wav)
  have z: "seg_len toy_lib ([] :: int list) = 0"
    by (simp add: toy_lib_fields)
  have p: "0 < seg_len toy_lib [1 :: int]"
    by (simp add: toy_lib_fields)
  show ?thesis
    using mix_audio_files_zero_length_background [OF d toy_world_sea z p] .
qed

text \<open>
  Claim C5. The mixer fails when the narration or the background cannot be
  decoded and when the background file does not exist, and in no other case. The
  code does not keep the last part: on a narration of two milliseconds and a
  background file that holds a well-formed container of no audio, both inputs
  decode, the file exists, and the mixer still fails.
\<close>

theorem mix_audio_files_undocumented_failure:
  "decode_wav toy_lib [3, 4] = Inr [3, 4]
   \<and> disk toy_world ''background_sound/sea.wav'' = Some []
   \<and> decode_any toy_lib [] = Inr []
   \<and> mix_audio_files toy_lib toy_world [3, 4] ''background_sound/sea.wav'' (-15) 3000
       = Inl ZeroDivisionError"
  by (simp add: mix_audio_files_def loop_background_def from_file_def
      toy_lib_fields toy_decode_def toy_world_def)


section \<open>Properties of the generation request\<close>

text \<open>
  Claim C8. The system instruction handed to the story generator is the fixed
  template (the instruction built when there is no feedback) followed by one hint
  chosen by the feedback state: the note to maintain the style when the state is
  \<open>like\<close>, the note to change it when the state is \<open>dislike\<close>, and nothing
  otherwise. Generation reads the feedback state and leaves it as it was.
\<close>

theorem generate_fairy_tale_system_message:
  "messages (chat_request_of st scenario main_character themes language_code) ! 0
     = (''system'', system_message language_code (feedback st))
   \<and> fst (generate_fairy_tale create st scenario main_character themes language_code)
     = (case create (chat_request_of st scenario main_character themes language_code) of
          Inl e \<Rightarrow> None | Inr content \<Rightarrow> Some content)
   \<and> system_message language_code None
     = ''You are a creative AI specialized in crafting original fairy tales. Write a complete story with a clear beginning, middle, and end. It should be relatively small, around 1000 words. Use rich detail, do not end abruptly, and conclude with a final resolution. Write the story in ''
       @ language_code @ '' language.\<newline>''
   \<and> (feedback st = Some ''like'' \<longrightarrow>
        system_message language_code (feedback st)
          = system_message language_code None
            @ ''The user liked your previous story. Maintain or enhance that appealing style/tone.\<newline>'')
   \<and> (feedback st = Some ''dislike'' \<longrightarrow>
        system_message language_code (feedback st)
          = system_message language_code None
            @ ''The user disliked your previous story. Try a different approach or style.\<newline>'')
   \<and> (feedback st \<noteq> Some ''like'' \<and> feedback st \<noteq> Some ''dislike'' \<longrightarrow>
        system_message language_code (feedback st) = system_message language_code None)
   \<and> feedback (snd (generate_fairy_tale create st scenario main_character themes language_code))
     = feedback st"
proof (intro conjI impI)
  show "messages (chat_request_of st scenario main_character themes language_code) ! 0
     = (''system'', system_message language_code (feedback st))"
    by (simp add: chat_request_of_def)
  show "fst (generate_fairy_tale create st scenario main_character themes language_code)
     = (case create (chat_request_of st scenario main_character themes language_code) of
          Inl e \<Rightarrow> None | Inr content \<Rightarrow> Some content)"
    by (simp add: generate_fairy_tale_def Let_def split: sum.splits)
  show "system_message language_code None
     = ''You are a creative AI specialized in crafting original fairy tales. Write a complete story with a clear beginning, middle, and end. It should be relatively small, around 1000 words. Use rich detail, do not end abruptly, and conclude with a final resolution. Write the story in ''
       @ language_code @ '' language.\<newline>''"
    by (simp add: system_message_def feedback_note_def)
  show "system_message language_code (feedback st)
          = system_message language_code None
            @ ''The user liked your previous story. Maintain or enhance that appealing style/tone.\<newline>''"
    if "feedback st = Some ''like''"
    using that by (simp add: system_message_def feedback_note_def)
  show "system_message language_code (feedback st)
          = system_message language_code None
            @ ''The user disliked your previous story. Try a different approach or style.\<newline>''"
    if "feedback st = Some ''dislike''"
    using that by (simp add: system_message_def feedback_note_def)
  show "system_message language_code (feedback st) = system_message language_code None"
    if "feedback st \<noteq> Some ''like'' \<and> feedback st \<noteq> Some ''dislike''"
    using that by (simp add: system_message_def feedback_note_def)
  show "feedback (snd (generate_fairy_tale create st scenario main_character themes language_code))
     = feedback st"
    by (simp add: generate_fairy_tale_def Let_def split: sum.splits)
qed

theorem generate_fairy_tale_system_message_witness:
  "system_message ''en'' (feedback (toy_world\<lparr>feedback := Some ''like''\<rparr>))
     = system_message ''en'' None
       @ ''The user liked your previous story. Maintain or enhance that appealing style/tone.\<newline>''
   \<and> system_message ''en'' (feedback (toy_world\<lparr>feedback := Some ''dislike''\<rparr>))
     = system_message ''en'' None
       @ ''The user disliked your previous story. Try a different approach or style.\<newline>''
   \<and> system_message ''en'' (feedback toy_world) = system_message ''en'' None
   \<and> feedback (snd (generate_fairy_tale (\<lambda>r. Inr (snd (messages r ! 0)))
        (toy_world\<lparr>feedback := Some ''like''\<rparr>) ''a'' ''b'' ''sea'' ''en''))
     = Some ''like''"
proof -
  have l: "feedback (toy_world\<lparr>feedback := Some ''like''\<rparr>) = Some ''like''" by simp
  have d: "feedback (toy_world\<lparr>feedback := Some ''dislike''\<rparr>) = Some ''dislike''" by simp
  have n: "feedback toy_world \<noteq> Some ''like'' \<and> feedback toy_world \<noteq> Some ''dislike''"
    by (simp add: toy_world_def)
  from generate_fairy_tale_system_message
    [of "toy_world\<lparr>feedback := Some ''like''\<rparr>" "''a''" "''b''" "''sea''" "''en''"
        "\<lambda>r. Inr (snd (messages r ! 0))"] l
  have a: "system_message ''en'' (feedback (toy_world\<lparr>feedback := Some ''like''\<rparr>))
     = system_message ''en'' None
       @ ''The user liked your previous story. Maintain or enhance that appealing style/tone.\<newline>''
     \<and> feedback (snd (generate_fairy_tale (\<lambda>r. Inr (snd (messages r ! 0)))
        (toy_world\<lparr>feedback := Some ''like''\<rparr>) ''a'' ''b'' ''sea'' ''en''))
       = Some ''like''"
    by metis
  from generate_fairy_tale_system_message
    [of "toy_world\<lparr>feedback := Some ''dislike''\<rparr>" "''a''" "''b''" "''sea''" "''en''"
        "\<lambda>r. Inr (snd (messages r ! 0))"] d
  have b: "system_message ''en'' (feedback (toy_world\<lparr>feedback := Some ''dislike''\<rparr>))
     = system_message ''en'' None
       @ ''The user disliked your previous story. Try a different approach or style.\<newline>''"
    by metis
  from generate_fairy_tale_system_message
    [of toy_world "''a''" "''b''" "''sea''" "''en''" "\<lambda>r. Inr (snd (messages r ! 0))"] n
  have c: "system_message ''en'' (feedback toy_world) = system_message ''en'' None"
    by metis
  from a b c show ?thesis by blast
qed


section \<open>Properties of the synthesis\<close>

lemma run_tts_disk: "disk (snd (run_tts env st story_text speaker language_code)) = disk st"
  by (simp add: run_tts_def split: sum.splits)

text \<open>
  Claim C9, as it is written: every temporary file created while the voice
  reference is normalised is deleted on every exit path. It fails: on an upload
  that decodes, the file that did not exist before the call is on disk after the
  call has returned, when the synthesis succeeds and when it fails.
\<close>

theorem text_to_speech_coqui_leaves_temp_file:
  "disk toy_world ''/tmp/tmp0.wav'' = None
   \<and> fst (text_to_speech_coqui toy_lib toy_coqui toy_world ''Once'' ''en'' (BytesIO [1, 2]))
       = Some (map of_char ''Once'')
   \<and> disk (snd (text_to_speech_coqui toy_lib toy_coqui toy_world ''Once'' ''en'' (BytesIO [1, 2])))
        ''/tmp/tmp0.wav'' = Some [1, 2]
   \<and> fst (text_to_speech_coqui toy_lib toy_coqui toy_world [] ''en'' (BytesIO [1, 2])) = None
   \<and> disk (snd (text_to_speech_coqui toy_lib toy_coqui toy_world [] ''en'' (BytesIO [1, 2])))
        ''/tmp/tmp0.wav'' = Some [1, 2]"
  by (simp add: text_to_speech_coqui_def run_tts_def toy_lib_def pydub_mono_def toy_coqui_def toy_decode_def
      toy_world_def)

text \<open>
  Claim C9, amended. \<open>text_to_speech_coqui\<close> deletes no file. When the model
  loads and the uploaded voice reference decodes, the temporary file that holds the
  re-encoded reference is on disk when the function returns, whether the synthesis
  succeeds or fails. When the model does not load, when the upload does not decode,
  or when the voice reference is not an upload, the disk is left as it was: no
  temporary file has been created.
\<close>

theorem text_to_speech_coqui_temp_files:
  "dom (disk st)
     \<subseteq> dom (disk (snd (text_to_speech_coqui lib env st story_text language_code voice)))
   \<and> (TTS_init env ''tts_models/multilingual/multi-dataset/xtts_v2'' = None
        \<and> voice = BytesIO data \<and> decode_wav lib data = Inr audio_seg \<longrightarrow>
      disk (snd (text_to_speech_coqui lib env st story_text language_code voice))
        = (disk st)(temp_name env (disk st) \<mapsto> export_wav lib audio_seg))
   \<and> (TTS_init env ''tts_models/multilingual/multi-dataset/xtts_v2'' \<noteq> None
        \<or> (\<exists>ex. voice = BytesIO data \<and> decode_wav lib data = Inl ex)
        \<or> (\<exists>path. voice = Other path) \<longrightarrow>
      disk (snd (text_to_speech_coqui lib env st story_text language_code voice)) = disk st)"
proof (intro conjI impI)
  show "dom (disk st)
     \<subseteq> dom (disk (snd (text_to_speech_coqui lib env st story_text language_code voice)))"
    by (auto simp: text_to_speech_coqui_def run_tts_disk Let_def
        split: option.splits voice_sample.splits sum.splits)
  show "disk (snd (text_to_speech_coqui lib env st story_text language_code voice))
        = (disk st)(temp_name env (disk st) \<mapsto> export_wav lib audio_seg)"
    if "TTS_init env ''tts_models/multilingual/multi-dataset/xtts_v2'' = None
        \<and> voice = BytesIO data \<and> decode_wav lib data = Inr audio_seg"
    using that by (simp add: text_to_speech_coqui_def run_tts_disk Let_def)
  show "disk (snd (text_to_speech_coqui lib env st story_text language_code voice)) = disk st"
    if "TTS_init env ''tts_models/multilingual/multi-dataset/xtts_v2'' \<noteq> None
        \<or> (\<exists>ex. voice = BytesIO data \<and> decode_wav lib data = Inl ex)
        \<or> (\<exists>path. voice = Other path)"
    using that
    by (auto simp: text_to_speech_coqui_def run_tts_disk Let_def split: option.splits)
qed

theorem text_to_speech_coqui_temp_files_witness:
  "disk (snd (text_to_speech_coqui toy_lib toy_coqui toy_world ''Once'' ''en'' (BytesIO [1, 2])))
     = (disk toy_world)(''/tmp/tmp0.wav'' \<mapsto> [1, 2])
   \<and> disk (snd (text_to_speech_coqui toy_lib toy_coqui toy_world ''Once'' ''en'' (BytesIO [256])))
     = disk toy_world
   \<and> disk (snd (text_to_speech_coqui toy_lib toy_coqui toy_world ''Once'' ''en''
        (Other (Some ''Islam.wav''))))
     = disk toy_world"
proof -
  have i: "TTS_init toy_coqui ''tts_models/multilingual/multi-dataset/xtts_v2'' = None"
    by (simp add: toy_coqui_def)
  have ok: "decode_wav toy_lib [1, 2] = Inr [1, 2]"
    by (simp add: toy_decode_wav)
  have bad: "decode_wav toy_lib [256] = Inl CouldntDecodeError"
    by (simp add: toy_lib_def pydub_mono_def toy_decode_def)
  have t: "temp_name toy_coqui (disk toy_world) = ''/tmp/tmp0.wav''"
    by (simp add: toy_coqui_def)
  have e: "export_wav toy_lib [1, 2] = [1, 2]"
    by (simp add: toy_lib_def pydub_mono_def)
  from text_to_speech_coqui_temp_files
    [of toy_world toy_lib toy_coqui "''Once''" "''en''" "BytesIO [1, 2]" "[1, 2]" "[1, 2]"] i ok
  have a: "disk (snd (text_to_speech_coqui toy_lib toy_coqui toy_world ''Once'' ''en'' (BytesIO [1, 2])))
     = (disk toy_world)(''/tmp/tmp0.wav'' \<mapsto> [1, 2])"
    unfolding t e by blast
  from text_to_speech_coqui_temp_files
    [of toy_world toy_lib toy_coqui "''Once''" "''en''" "BytesIO [256]" "[256]"] bad
  have b: "disk (snd (text_to_speech_coqui toy_lib toy_coqui toy_world ''Once'' ''en'' (BytesIO [256])))
     = disk toy_world"
    by blast
  from text_to_speech_coqui_temp_files
    [of toy_world toy_lib toy_coqui "''Once''" "''en''" "Other (Some ''Islam.wav'')"]
  have c: "disk (snd (text_to_speech_coqui toy_lib toy_coqui toy_world ''Once'' ''en''
        (Other (Some ''Islam.wav''))))
     = disk toy_world"
    by blast
  from a b c show ?thesis by blast
qed

end
